theory Spec2Isabelle
  imports Main "HOL-Library.Sublist"
begin

section \<open>pogrep: searching translation catalogs\<close>

text \<open>
  A shallow embedding of \<^verbatim>\<open>pogrep.py\<close>. The program is a thin pipeline over four libraries
  (\<^verbatim>\<open>regex\<close>, \<^verbatim>\<open>polib\<close>, \<^verbatim>\<open>tabulate\<close>, \<^verbatim>\<open>textwrap\<close>) and the operating system.
  None of them is part of the program, so each enters the model as a field of the record
  \<open>world\<close>; the functions of the program are translated over an arbitrary world.
\<close>

subsection \<open>Exceptions and output\<close>

text \<open>
  \<open>SystemExit n\<close> is \<^verbatim>\<open>sys.exit(n)\<close>; \<open>RegexError\<close> is the exception \<^verbatim>\<open>regex.error\<close> that
  the regex library raises for a pattern (or replacement template) it cannot compile;
  \<open>ValueError\<close> is what \<^verbatim>\<open>textwrap.fill\<close> raises for a width that is not positive.
\<close>

datatype error = SystemExit int | RegexError | ValueError

text \<open>Every \<^verbatim>\<open>print\<close> call is one event: the line printed and the stream it went to.\<close>

datatype out_event = Stdout string | Stderr string

subsection \<open>Data\<close>

text \<open>An entry of a parsed catalog, as \<^verbatim>\<open>polib\<close> hands it over (the three attributes read).\<close>

record po_entry =
  linenum :: int
  msgid :: string
  msgstr :: string

text \<open>
  \<^verbatim>\<open>class Match(NamedTuple)\<close>, with the fields \<^verbatim>\<open>file\<close>, \<^verbatim>\<open>line\<close>, \<^verbatim>\<open>msgid\<close>, \<^verbatim>\<open>msgstr\<close>
  (prefixed here: \<open>file\<close> is a keyword of Isabelle).
\<close>

record Match =
  m_file :: string
  m_line :: int
  m_msgid :: string
  m_msgstr :: string

subsection \<open>The libraries and the operating system\<close>

text \<open>
  \<^item> \<open>RED\<close>, \<open>GREEN\<close>, \<open>MAGENTA\<close>, \<open>NO_COLOR\<close>: the four strings \<^verbatim>\<open>get_colors()\<close> obtained
    from the terminal database at start-up (all empty when \<^verbatim>\<open>curses\<close> fails).
  \<^item> \<open>re_compiles p\<close>: the regex library accepts the pattern \<open>p\<close>;
    \<open>re_matches p t\<close>: \<^verbatim>\<open>regex.search(p, t)\<close> finds a match;
    \<open>re_subst p repl t count\<close>: the result of \<^verbatim>\<open>regex.sub(p, repl, t, count)\<close>
    (\<open>count = 0\<close> replaces every match), \<open>None\<close> when the template \<open>repl\<close> is rejected;
    \<open>re_escape\<close>: \<^verbatim>\<open>regex.escape\<close>.
  \<^item> \<open>pofile f\<close>: \<^verbatim>\<open>polib.pofile(f)\<close>, \<open>None\<close> when it raises \<^verbatim>\<open>OSError\<close>, the one exception
    that \<^verbatim>\<open>find_in_po\<close> catches.
  \<^item> \<open>isfile\<close>, \<open>isdir\<close>: \<^verbatim>\<open>os.path.isfile\<close>, \<^verbatim>\<open>os.path.isdir\<close>;
    \<open>glob_po d\<close>: \<^verbatim>\<open>glob.glob(d + "**/*.po", recursive=True)\<close>; \<open>sep\<close>: \<^verbatim>\<open>os.sep\<close>;
    \<open>argv0\<close>: \<^verbatim>\<open>sys.argv[0]\<close>.
  \<^item> \<open>tabulate\<close>: \<^verbatim>\<open>tabulate(table, tablefmt="fancy_grid")\<close>; \<open>fill\<close>: \<^verbatim>\<open>textwrap.fill\<close> for
    a positive width; \<open>terminal_width\<close>: \<^verbatim>\<open>get_terminal_size()[0]\<close>.
  \<^item> \<open>set_iter xs\<close>: the order in which Python iterates over the set built from the
    elements \<open>xs\<close> (the language leaves it open).
\<close>

record world =
  RED :: string
  GREEN :: string
  MAGENTA :: string
  NO_COLOR :: string
  re_compiles :: "string \<Rightarrow> bool"
  re_matches :: "string \<Rightarrow> string \<Rightarrow> bool"
  re_subst :: "string \<Rightarrow> string \<Rightarrow> string \<Rightarrow> nat \<Rightarrow> string option"
  re_escape :: "string \<Rightarrow> string"
  pofile :: "string \<Rightarrow> po_entry list option"
  isfile :: "string \<Rightarrow> bool"
  isdir :: "string \<Rightarrow> bool"
  glob_po :: "string \<Rightarrow> string list"
  sep :: string
  argv0 :: string
  tabulate :: "string list list \<Rightarrow> string"
  fill :: "string \<Rightarrow> int \<Rightarrow> string"
  terminal_width :: int
  set_iter :: "string list \<Rightarrow> string list"

text \<open>
  \<^verbatim>\<open>regex.search(pattern, text)\<close> and \<^verbatim>\<open>regex.sub(pattern, repl, text, count)\<close>: both compile
  the pattern first and raise \<^verbatim>\<open>regex.error\<close> when that fails.
\<close>

definition regex_search :: "world \<Rightarrow> string \<Rightarrow> string \<Rightarrow> error + bool" where
  "regex_search w p t = (if re_compiles w p then Inr (re_matches w p t) else Inl RegexError)"

definition regex_sub :: "world \<Rightarrow> string \<Rightarrow> string \<Rightarrow> string \<Rightarrow> nat \<Rightarrow> error + string" where
  "regex_sub w p repl t n =
     (if re_compiles w p
      then (case re_subst w p repl t n of None \<Rightarrow> Inl RegexError | Some r \<Rightarrow> Inr r)
      else Inl RegexError)"

subsection \<open>\<^verbatim>\<open>find_in_po\<close>\<close>

text \<open>
  The condition of the inner loop, with Python's short-circuit evaluation: the searches
  run left to right and only as far as needed, and each one may raise.
  \<^verbatim>\<open>
  entry.msgstr and (
      (not not_in_source and regex.search(pattern, entry.msgid))
      or (in_translation and regex.search(pattern, entry.msgstr)))
  \<close>
\<close>

definition entry_matches :: "world \<Rightarrow> string \<Rightarrow> bool \<Rightarrow> bool \<Rightarrow> po_entry \<Rightarrow> error + bool" where
  "entry_matches w pattern not_in_source in_translation e =
     (if msgstr e = [] then Inr False
      else
        (case (if \<not> not_in_source then regex_search w pattern (msgid e) else Inr False) of
           Inl err \<Rightarrow> Inl err
         | Inr True \<Rightarrow> Inr True
         | Inr False \<Rightarrow>
             (if in_translation then regex_search w pattern (msgstr e) else Inr False)))"

definition make_match :: "string \<Rightarrow> po_entry \<Rightarrow> Match" where
  "make_match filename e =
     \<lparr>m_file = filename, m_line = linenum e, m_msgid = msgid e, m_msgstr = msgstr e\<rparr>"

text \<open>The inner loop \<^verbatim>\<open>for entry in pofile\<close>, appending to \<^verbatim>\<open>results\<close>.\<close>

fun scan_entries ::
  "world \<Rightarrow> string \<Rightarrow> bool \<Rightarrow> bool \<Rightarrow> string \<Rightarrow> po_entry list \<Rightarrow> Match list \<Rightarrow> error + Match list"
where
  "scan_entries w pattern nis it filename [] results = Inr results"
| "scan_entries w pattern nis it filename (e # es) results =
     (case entry_matches w pattern nis it e of
        Inl err \<Rightarrow> Inl err
      | Inr b \<Rightarrow>
          scan_entries w pattern nis it filename es
            (if b then results @ [make_match filename e] else results))"

definition not_a_po_file :: "string \<Rightarrow> string" where
  "not_a_po_file filename = filename @ '' doesn'' @ [CHR 0x27] @ ''t seem to be a .po file''"

text \<open>The outer loop \<^verbatim>\<open>for filename in path\<close>, with both accumulators.\<close>

fun find_loop ::
  "world \<Rightarrow> string \<Rightarrow> bool \<Rightarrow> bool \<Rightarrow> string list \<Rightarrow> Match list \<Rightarrow> string list
     \<Rightarrow> error + (string list \<times> Match list)"
where
  "find_loop w pattern nis it [] results errors = Inr (errors, results)"
| "find_loop w pattern nis it (filename # rest) results errors =
     (case pofile w filename of
        None \<Rightarrow> find_loop w pattern nis it rest results (errors @ [not_a_po_file filename])
      | Some entries \<Rightarrow>
          (case scan_entries w pattern nis it filename entries results of
             Inl err \<Rightarrow> Inl err
           | Inr results' \<Rightarrow> find_loop w pattern nis it rest results' errors))"

definition find_in_po ::
  "world \<Rightarrow> string \<Rightarrow> string list \<Rightarrow> bool \<Rightarrow> bool \<Rightarrow> error + (string list \<times> Match list)"
where
  "find_in_po w pattern path not_in_source in_translation =
     find_loop w pattern not_in_source in_translation path [] []"

subsection \<open>\<^verbatim>\<open>colorize\<close>\<close>

definition backslash :: char where
  "backslash = CHR 0x5C"

text \<open>The replacement template \<^verbatim>\<open>RED + r"\g<0>" + NO_COLOR\<close>.\<close>

definition red_template :: "world \<Rightarrow> string" where
  "red_template w = RED w @ [backslash] @ ''g<0>'' @ NO_COLOR w"

text \<open>
  The body of the loop \<^verbatim>\<open>for pnum, pfile in prefixes\<close>: one prefix pass over \<open>result\<close>.
  The names \<open>prefix\<close> and \<open>prefixes\<close> of the source are constants of the list library,
  hence \<open>prefix'\<close> and \<open>pfxs\<close>;
  \<^verbatim>\<open>a in b\<close> on strings is \<open>sublist a b\<close>.
\<close>

definition prefix_pass :: "world \<Rightarrow> string \<Rightarrow> string \<times> string \<Rightarrow> string \<Rightarrow> error + string" where
  "prefix_pass w pattern pp result =
     (case pp of (pnum, pfile) \<Rightarrow>
        (let prefix' = '' '' @ pfile @ pnum in
         (case regex_sub w pattern (red_template w) prefix' 0 of
            Inl err \<Rightarrow> Inl err
          | Inr colored \<Rightarrow>
              (let prefix_colored = re_escape w colored;
                   prefix'' = (if sublist (re_escape w (RED w)) prefix_colored
                               then prefix_colored else prefix');
                   prefix_replace = '' '' @ MAGENTA w @ pfile @ GREEN w @ pnum @ NO_COLOR w
               in regex_sub w prefix'' prefix_replace result 1))))"

fun prefix_loop :: "world \<Rightarrow> string \<Rightarrow> (string \<times> string) list \<Rightarrow> string \<Rightarrow> error + string" where
  "prefix_loop w pattern [] result = Inr result"
| "prefix_loop w pattern (pp # pfxs) result =
     (case prefix_pass w pattern pp result of
        Inl err \<Rightarrow> Inl err
      | Inr result' \<Rightarrow> prefix_loop w pattern pfxs result')"

definition colorize :: "world \<Rightarrow> string \<Rightarrow> string \<Rightarrow> (string \<times> string) list \<Rightarrow> error + string" where
  "colorize w txt pattern pfxs =
     (case regex_sub w pattern (red_template w) txt 0 of
        Inl err \<Rightarrow> Inl err
      | Inr result \<Rightarrow> prefix_loop w pattern pfxs result)"

subsection \<open>\<^verbatim>\<open>display_results\<close>\<close>

text \<open>\<^verbatim>\<open>str(n)\<close> for an integer: its decimal digits, with a minus sign when negative.\<close>

fun str_nat :: "nat \<Rightarrow> string" where
  "str_nat n =
     (if n < 10 then [''0123456789'' ! n]
      else str_nat (n div 10) @ [''0123456789'' ! (n mod 10)])"

definition str_int :: "int \<Rightarrow> string" where
  "str_int i = (if i < 0 then ''-'' @ str_nat (nat (- i)) else str_nat (nat i))"

text \<open>
  The set \<^verbatim>\<open>files = {match.file for match in matches}\<close>, represented by the list of its
  distinct elements; \<^verbatim>\<open>len(files)\<close> is the length of that list, and the order of
  \<^verbatim>\<open>for file in files\<close> is the world's \<open>set_iter\<close>.
\<close>

definition file_set :: "Match list \<Rightarrow> string list" where
  "file_set matches = remdups (map m_file matches)"

text \<open>\<^verbatim>\<open>textwrap.fill(text, width=n)\<close> raises \<^verbatim>\<open>ValueError\<close> unless \<open>n\<close> is positive.\<close>

definition py_fill :: "world \<Rightarrow> string \<Rightarrow> int \<Rightarrow> error + string" where
  "py_fill w t n = (if n \<le> 0 then Inl ValueError else Inr (fill w t n))"

text \<open>
  The loop \<^verbatim>\<open>for match in matches\<close> that builds \<^verbatim>\<open>table\<close> and \<^verbatim>\<open>prefixes\<close>; \<open>nfiles\<close> is
  \<^verbatim>\<open>len(files)\<close> and \<open>width\<close> is \<^verbatim>\<open>(term_width - 7) // 2\<close>.
\<close>

fun table_loop ::
  "world \<Rightarrow> bool \<Rightarrow> nat \<Rightarrow> int \<Rightarrow> Match list \<Rightarrow> string list list \<Rightarrow> (string \<times> string) list
     \<Rightarrow> error + (string list list \<times> (string \<times> string) list)"
where
  "table_loop w line_number nfiles width [] table pfxs = Inr (table, pfxs)"
| "table_loop w line_number nfiles width (m # ms) table pfxs =
     (let pnum = str_int (m_line m) @ '':'';
          pfile = (if nfiles > 1 then m_file m @ '':'' else []);
          left = (if line_number then pfile @ pnum @ m_msgid m else m_msgid m);
          pfxs' = (if line_number then pfxs @ [(pnum, pfile)] else pfxs)
      in (case py_fill w left width of
            Inl err \<Rightarrow> Inl err
          | Inr l \<Rightarrow>
              (case py_fill w (m_msgstr m) width of
                 Inl err \<Rightarrow> Inl err
               | Inr r \<Rightarrow> table_loop w line_number nfiles width ms (table @ [[l, r]]) pfxs')))"

definition display_results ::
  "world \<Rightarrow> Match list \<Rightarrow> string \<Rightarrow> bool \<Rightarrow> bool \<Rightarrow> out_event list \<times> (error + unit)"
where
  "display_results w matches pattern line_number files_with_matches =
     (let files = file_set matches in
      if files_with_matches
      then (map (\<lambda>f. Stdout (MAGENTA w @ f @ NO_COLOR w)) (set_iter w files), Inr ())
      else
        (case table_loop w line_number (length files) ((terminal_width w - 7) div 2) matches [] [] of
           Inl err \<Rightarrow> ([], Inl err)
         | Inr (table, pfxs) \<Rightarrow>
             (case colorize w (tabulate w table) pattern pfxs of
                Inl err \<Rightarrow> ([], Inl err)
              | Inr out \<Rightarrow> ([Stdout out], Inr ()))))"

subsection \<open>\<^verbatim>\<open>process_path\<close>\<close>

definition is_a_directory :: "world \<Rightarrow> string \<Rightarrow> string" where
  "is_a_directory w elt = argv0 w @ '': '' @ elt @ '': Is a directory''"

definition no_such_file :: "world \<Rightarrow> string \<Rightarrow> string" where
  "no_such_file w elt = argv0 w @ '': '' @ elt @ '': No such file or directory''"

text \<open>The loop \<^verbatim>\<open>for elt in path\<close>, with the accumulator \<^verbatim>\<open>files\<close>.\<close>

fun path_loop ::
  "world \<Rightarrow> bool \<Rightarrow> string list \<Rightarrow> string list \<Rightarrow> out_event list \<times> (error + string list)"
where
  "path_loop w recursive [] files = ([], Inr files)"
| "path_loop w recursive (elt # rest) files =
     (if isfile w elt then path_loop w recursive rest (files @ [elt])
      else if isdir w elt then
        (if recursive then path_loop w recursive rest (files @ glob_po w (elt @ sep w))
         else ([Stderr (is_a_directory w elt)], Inl (SystemExit 1)))
      else ([Stderr (no_such_file w elt)], Inl (SystemExit 1)))"

definition process_path ::
  "world \<Rightarrow> string list \<Rightarrow> bool \<Rightarrow> out_event list \<times> (error + string list)"
where
  "process_path w path recursive =
     (if length path = 0
      then (if \<not> recursive then ([], Inl (SystemExit 0)) else ([], Inr (glob_po w [])))
      else path_loop w recursive path [])"

subsection \<open>\<^verbatim>\<open>main\<close>\<close>

text \<open>The namespace \<^verbatim>\<open>parse_args()\<close> returns; \<open>exclude_dir\<close> is \<open>None\<close> when the option is absent.\<close>

record args =
  fixed_strings :: bool
  ignore_case :: bool
  word_regexp :: bool
  line_number :: bool
  files_with_matches :: bool
  no_messages :: bool
  recursive :: bool
  translation :: bool
  no_source :: bool
  exclude_dir :: "string option"
  pattern :: string
  path :: "string list"

text \<open>
  The first six lines of \<^verbatim>\<open>main\<close>: the pattern handed to every later search.
  \<^verbatim>\<open>
  if args.fixed_strings: args.pattern = regex.escape(args.pattern)
  if args.word_regexp:   args.pattern = r"\b" + args.pattern + r"\b"
  if args.ignore_case:   args.pattern = r"(?i)" + args.pattern
  \<close>
\<close>

definition build_pattern :: "world \<Rightarrow> args \<Rightarrow> string" where
  "build_pattern w a =
     (let p1 = (if fixed_strings a then re_escape w (pattern a) else pattern a);
          p2 = (if word_regexp a then [backslash] @ ''b'' @ p1 @ [backslash] @ ''b'' else p1);
          p3 = (if ignore_case a then ''(?i)'' @ p2 else p2)
      in p3)"

text \<open>\<^verbatim>\<open>s.rstrip(chars)\<close>: drop from the right every character that occurs in \<open>chars\<close>.\<close>

definition rstrip :: "string \<Rightarrow> string \<Rightarrow> string" where
  "rstrip chars s = rev (dropWhile (\<lambda>c. c \<in> set chars) (rev s))"

text \<open>
  \<^verbatim>\<open>
  if args.exclude_dir:
      files = [f for f in files if args.exclude_dir.rstrip(os.sep) + os.sep not in f]
  \<close>
  The condition is false for an absent option and for the empty string.
\<close>

definition exclude :: "world \<Rightarrow> string option \<Rightarrow> string list \<Rightarrow> string list" where
  "exclude w ex files =
     (case ex of
        None \<Rightarrow> files
      | Some d \<Rightarrow>
          (if d = [] then files
           else filter (\<lambda>f. \<not> sublist (rstrip (sep w) d @ sep w) f) files))"

definition main :: "world \<Rightarrow> args \<Rightarrow> out_event list \<times> (error + unit)" where
  "main w a =
     (let pattern' = build_pattern w a in
      (case process_path w (path a) (recursive a) of
         (out1, Inl err) \<Rightarrow> (out1, Inl err)
       | (out1, Inr files0) \<Rightarrow>
           (let files = exclude w (exclude_dir a) files0 in
            (case find_in_po w pattern' files (no_source a) (translation a) of
               Inl err \<Rightarrow> (out1, Inl err)
             | Inr (errors, results) \<Rightarrow>
                 (let out2 = (if \<not> no_messages a then map Stderr errors else []) in
                  (case display_results w results pattern' (line_number a) (files_with_matches a) of
                     (out3, r) \<Rightarrow> (out1 @ out2 @ out3, r)))))))"

section \<open>A reference world\<close>

text \<open>
  The theorems below hold in every world. To run the program on concrete inputs one world is
  fixed here. Its regex engine covers a fragment of the library's pattern language on ASCII
  text, where the meaning of a pattern is not in doubt:
  \<^item> a character other than \<^verbatim>\<open>\ . | ( ) [ ] { } ? * + ^ $\<close> matches itself;
  \<^item> \<^verbatim>\<open>.\<close> matches any character but a newline;
  \<^item> \<^verbatim>\<open>\b\<close> matches the empty string at a word boundary;
  \<^item> a backslash before a character that is neither a letter nor a digit matches that character;
  \<^item> \<^verbatim>\<open>|\<close> separates alternatives, tried from left to right, and binds weakest.

  Every other pattern is reported as not compiling, as is a pattern one of whose alternatives
  can match the empty string; the engine is only meant to be run inside the fragment (and on
  \<^verbatim>\<open>(\<close>, which the library rejects too).
\<close>

subsection \<open>Patterns\<close>

datatype atom = Lit char | AnyChar | WordBoundary

definition is_alnum :: "char \<Rightarrow> bool" where
  "is_alnum c =
     (let n = (of_char c :: nat)
      in (48 \<le> n \<and> n \<le> 57) \<or> (65 \<le> n \<and> n \<le> 90) \<or> (97 \<le> n \<and> n \<le> 122))"

definition is_word :: "char \<Rightarrow> bool" where
  "is_word c = (is_alnum c \<or> c = CHR ''_'')"

definition add_atom :: "atom \<Rightarrow> atom list list \<Rightarrow> atom list list" where
  "add_atom a alts = (case alts of [] \<Rightarrow> [[a]] | alt # rest \<Rightarrow> (a # alt) # rest)"

text \<open>The alternatives of a pattern, \<open>None\<close> outside the fragment.\<close>

fun parse_pattern :: "string \<Rightarrow> atom list list option" where
  "parse_pattern [] = Some [[]]"
| "parse_pattern [c] =
     (if c = backslash \<or> c \<in> set ''()[]{}?*+^$'' then None
      else if c = CHR ''|'' then Some [[], []]
      else if c = CHR ''.'' then Some [[AnyChar]]
      else Some [[Lit c]])"
| "parse_pattern (c # d # cs) =
     (if c = backslash then
        (if d = CHR ''b'' then map_option (add_atom WordBoundary) (parse_pattern cs)
         else if is_alnum d then None
         else map_option (add_atom (Lit d)) (parse_pattern cs))
      else if c \<in> set ''()[]{}?*+^$'' then None
      else if c = CHR ''|'' then map_option (\<lambda>alts. [] # alts) (parse_pattern (d # cs))
      else if c = CHR ''.'' then map_option (add_atom AnyChar) (parse_pattern (d # cs))
      else map_option (add_atom (Lit c)) (parse_pattern (d # cs)))"

definition consumes :: "atom list \<Rightarrow> bool" where
  "consumes alt = list_ex (\<lambda>a. a \<noteq> WordBoundary) alt"

definition ref_compiles :: "string \<Rightarrow> bool" where
  "ref_compiles p = (case parse_pattern p of None \<Rightarrow> False | Some alts \<Rightarrow> list_all consumes alts)"

subsection \<open>Matching\<close>

text \<open>
  A position in the text is the character before it (if any) and the rest of the text.
  \<open>match_atoms\<close> gives the length of the match of one alternative at a position.
\<close>

definition at_boundary :: "char option \<Rightarrow> string \<Rightarrow> bool" where
  "at_boundary prev rest =
     ((case prev of None \<Rightarrow> False | Some c \<Rightarrow> is_word c)
        \<noteq> (case rest of [] \<Rightarrow> False | c # _ \<Rightarrow> is_word c))"

fun match_atoms :: "atom list \<Rightarrow> char option \<Rightarrow> string \<Rightarrow> nat option" where
  "match_atoms [] prev rest = Some 0"
| "match_atoms (WordBoundary # as) prev rest =
     (if at_boundary prev rest then match_atoms as prev rest else None)"
| "match_atoms (Lit c # as) prev [] = None"
| "match_atoms (Lit c # as) prev (x # xs) =
     (if x = c then map_option Suc (match_atoms as (Some x) xs) else None)"
| "match_atoms (AnyChar # as) prev [] = None"
| "match_atoms (AnyChar # as) prev (x # xs) =
     (if x \<noteq> CHR 0x0A then map_option Suc (match_atoms as (Some x) xs) else None)"

fun match_alts :: "atom list list \<Rightarrow> char option \<Rightarrow> string \<Rightarrow> nat option" where
  "match_alts [] prev rest = None"
| "match_alts (alt # alts) prev rest =
     (case match_atoms alt prev rest of Some n \<Rightarrow> Some n | None \<Rightarrow> match_alts alts prev rest)"

text \<open>\<^verbatim>\<open>regex.search\<close>: is there a match at some position, scanning from the left.\<close>

fun search_from :: "atom list list \<Rightarrow> char option \<Rightarrow> string \<Rightarrow> bool" where
  "search_from alts prev [] = (match_alts alts prev [] \<noteq> None)"
| "search_from alts prev (x # xs) =
     (match_alts alts prev (x # xs) \<noteq> None \<or> search_from alts (Some x) xs)"

definition ref_matches :: "string \<Rightarrow> string \<Rightarrow> bool" where
  "ref_matches p t = (case parse_pattern p of None \<Rightarrow> False | Some alts \<Rightarrow> search_from alts None t)"

subsection \<open>Substitution\<close>

text \<open>
  A replacement template: \<^verbatim>\<open>\g<0>\<close> stands for the matched text, any other character but
  the backslash for itself; other uses of the backslash are outside the fragment.
\<close>

function expand :: "string \<Rightarrow> string \<Rightarrow> string option" where
  "expand [] m = Some []"
| "expand (c # cs) m =
     (if c = backslash then
        (if take 4 cs = ''g<0>'' then map_option (\<lambda>r. m @ r) (expand (drop 4 cs) m) else None)
      else map_option (\<lambda>r. c # r) (expand cs m))"
  by pat_completeness auto
termination
  by (relation "measure (\<lambda>(r, m). length r)") auto

text \<open>
  \<^verbatim>\<open>regex.sub\<close>: the matches are found from left to right and do not overlap; \<open>skip\<close>
  counts the characters of the current match still to be passed over, \<open>n\<close> is the
  \<^verbatim>\<open>count\<close> argument (0: no limit), \<open>f\<close> gives the replacement for a matched text.
\<close>

fun sub_scan ::
  "atom list list \<Rightarrow> (string \<Rightarrow> string) \<Rightarrow> nat \<Rightarrow> nat \<Rightarrow> char option \<Rightarrow> string \<Rightarrow> string"
where
  "sub_scan alts f n skip prev [] = []"
| "sub_scan alts f n skip prev (x # xs) =
     (if skip > 0 then sub_scan alts f n (skip - 1) (Some x) xs
      else
        (case match_alts alts prev (x # xs) of
           Some (Suc k) \<Rightarrow>
             f (take (Suc k) (x # xs))
               @ (if n = 1 then drop k xs
                  else sub_scan alts f (n - 1) k (Some x) xs)
         | _ \<Rightarrow> x # sub_scan alts f n 0 (Some x) xs))"

definition ref_subst :: "string \<Rightarrow> string \<Rightarrow> string \<Rightarrow> nat \<Rightarrow> string option" where
  "ref_subst p repl t n =
     (case parse_pattern p of
        None \<Rightarrow> None
      | Some alts \<Rightarrow>
          (if expand repl [] = None then None
           else Some (sub_scan alts (\<lambda>m. case expand repl m of None \<Rightarrow> [] | Some r \<Rightarrow> r) n 0 None t)))"

subsection \<open>\<^verbatim>\<open>regex.escape\<close>\<close>

text \<open>
  A backslash goes before each of the library's special characters and before white space;
  every other character is kept.
\<close>

definition is_space :: "char \<Rightarrow> bool" where
  "is_space c =
     (let n = (of_char c :: nat)
      in (9 \<le> n \<and> n \<le> 13) \<or> (28 \<le> n \<and> n \<le> 32) \<or> n = 133 \<or> n = 160)"

definition metachars :: string where
  "metachars = ''()[]{}?*+|^$.-#&~'' @ [backslash]"

definition escape_char :: "char \<Rightarrow> string" where
  "escape_char c = (if c \<in> set metachars \<or> is_space c then [backslash, c] else [c])"

definition ref_escape :: "string \<Rightarrow> string" where
  "ref_escape s = concat (map escape_char s)"

subsection \<open>The world\<close>

text \<open>
  Two catalogs \<^verbatim>\<open>a.po\<close> and \<^verbatim>\<open>b.po\<close>, a file \<^verbatim>\<open>bad.po\<close> that \<^verbatim>\<open>polib\<close> cannot read, a
  directory \<^verbatim>\<open>d\<close> holding \<^verbatim>\<open>d/c.po\<close>; the colours of an ANSI terminal; a wide terminal, on
  which \<^verbatim>\<open>fill\<close> leaves short texts alone; a table layout that, like \<^verbatim>\<open>fancy_grid\<close>, puts a
  space before each cell; sets iterated in the order of insertion.
\<close>

definition ref_pofile :: "string \<Rightarrow> po_entry list option" where
  "ref_pofile f =
     (if f = ''a.po'' then
        Some [\<lparr>linenum = 3, msgid = ''hello'', msgstr = ''bonjour''\<rparr>,
              \<lparr>linenum = 7, msgid = ''world'', msgstr = []\<rparr>]
      else if f = ''b.po'' then
        Some [\<lparr>linenum = 5, msgid = ''hello world'', msgstr = ''bonjour le monde''\<rparr>,
              \<lparr>linenum = 9, msgid = ''bye'', msgstr = ''salut''\<rparr>,
              \<lparr>linenum = 12, msgid = ''hello'', msgstr = ''bonjour''\<rparr>]
      else if f = ''d/c.po'' then
        Some [\<lparr>linenum = 1, msgid = ''category'', msgstr = ''categorie''\<rparr>]
      else None)"

definition ref_tabulate :: "string list list \<Rightarrow> string" where
  "ref_tabulate table = concat (map (\<lambda>row. concat (map (\<lambda>cell. ''| '' @ cell @ '' '') row) @ ''|'' @ [CHR 0x0A]) table)"

definition ref_world :: world where
  "ref_world =
     \<lparr>RED = [CHR 0x1B] @ ''[31m'', GREEN = [CHR 0x1B] @ ''[32m'',
      MAGENTA = [CHR 0x1B] @ ''[35m'', NO_COLOR = [CHR 0x1B] @ ''[m'',
      re_compiles = ref_compiles, re_matches = ref_matches, re_subst = ref_subst,
      re_escape = ref_escape,
      pofile = ref_pofile,
      isfile = (\<lambda>f. f \<in> set [''a.po'', ''b.po'', ''bad.po'', ''d/c.po'']),
      isdir = (\<lambda>f. f = ''d''),
      glob_po = (\<lambda>d. if d = ''d/'' then [''d/c.po''] else if d = [] then [''a.po'', ''b.po'', ''d/c.po''] else []),
      sep = ''/'', argv0 = ''pogrep'',
      tabulate = ref_tabulate, fill = (\<lambda>t n. t), terminal_width = 80,
      set_iter = (\<lambda>xs. xs)\<rparr>"

section \<open>The vocabulary of the specification\<close>

subsection \<open>Records and the match predicate\<close>

text \<open>
  The match predicate in the words of the specification: \<open>searchOriginal\<close> is the negation of
  the program's \<^verbatim>\<open>not_in_source\<close>, \<open>searchTranslation\<close> is \<^verbatim>\<open>in_translation\<close>.
\<close>

definition record_matches :: "world \<Rightarrow> string \<Rightarrow> bool \<Rightarrow> bool \<Rightarrow> po_entry \<Rightarrow> bool" where
  "record_matches w pat searchOriginal searchTranslation e =
     (msgstr e \<noteq> [] \<and>
      ((searchOriginal \<and> re_matches w pat (msgid e)) \<or>
       (searchTranslation \<and> re_matches w pat (msgstr e))))"

text \<open>
  The records the search runs over, in the order it meets them: file by file as listed,
  each readable file's entries in the order of the catalog.
\<close>

definition entries_of :: "world \<Rightarrow> string \<Rightarrow> po_entry list" where
  "entries_of w f = (case pofile w f of None \<Rightarrow> [] | Some es \<Rightarrow> es)"

definition records :: "world \<Rightarrow> string list \<Rightarrow> (string \<times> po_entry) list" where
  "records w paths = concat (map (\<lambda>f. map (Pair f) (entries_of w f)) paths)"

definition unreadable :: "world \<Rightarrow> string list \<Rightarrow> string list" where
  "unreadable w paths = filter (\<lambda>f. pofile w f = None) paths"

subsection \<open>Building the pattern\<close>

text \<open>The three steps of the specification's PatternBuilder, each on its own.\<close>

definition escape_literal :: "world \<Rightarrow> bool \<Rightarrow> string \<Rightarrow> string" where
  "escape_literal w literal p = (if literal then re_escape w p else p)"

definition wrap_word :: "bool \<Rightarrow> string \<Rightarrow> string" where
  "wrap_word whole_word p = (if whole_word then [backslash] @ ''b'' @ p @ [backslash] @ ''b'' else p)"

definition prepend_case_modifier :: "bool \<Rightarrow> string \<Rightarrow> string" where
  "prepend_case_modifier case_insensitive p = (if case_insensitive then ''(?i)'' @ p else p)"

subsection \<open>Path resolution\<close>

text \<open>
  A listed path the program accepts: a regular file, or a directory when \<^verbatim>\<open>-r\<close> is given.
  Any other path is an offender: a directory without \<^verbatim>\<open>-r\<close>, or a path that is neither a
  file nor a directory.
\<close>

definition path_ok :: "world \<Rightarrow> bool \<Rightarrow> string \<Rightarrow> bool" where
  "path_ok w rec elt = (isfile w elt \<or> (isdir w elt \<and> rec))"

subsection \<open>Entries that are searched\<close>

text \<open>
  The condition of \<^verbatim>\<open>find_in_po\<close> calls \<^verbatim>\<open>regex.search\<close> on an entry exactly when its
  translated text is not empty and at least one of the two toggles is on.
\<close>

definition attempted :: "bool \<Rightarrow> bool \<Rightarrow> po_entry \<Rightarrow> bool" where
  "attempted not_in_source in_translation e =
     (msgstr e \<noteq> [] \<and> (\<not> not_in_source \<or> in_translation))"

definition searched :: "world \<Rightarrow> string list \<Rightarrow> bool \<Rightarrow> bool \<Rightarrow> bool" where
  "searched w files not_in_source in_translation =
     list_ex (\<lambda>(f, e). attempted not_in_source in_translation e) (records w files)"

subsection \<open>Colour codes and literal replacement\<close>

text \<open>The four colour codes of a world, and a text with every occurrence of one removed.\<close>

definition color_codes :: "world \<Rightarrow> string list" where
  "color_codes w = [RED w, GREEN w, MAGENTA w, NO_COLOR w]"

function strip_codes :: "string list \<Rightarrow> string \<Rightarrow> string" where
  "strip_codes codes [] = []"
| "strip_codes codes (x # xs) =
     (case find (\<lambda>c. c \<noteq> [] \<and> prefix c (x # xs)) codes of
        Some c \<Rightarrow> strip_codes codes (drop (length c) (x # xs))
      | None \<Rightarrow> x # strip_codes codes xs)"
  by pat_completeness auto
termination
  by (relation "measure (\<lambda>(codes, s). length s)") (auto simp: find_Some_iff)





section \<open>The search\<close>

subsection \<open>What \<^verbatim>\<open>find_in_po\<close> computes\<close>

lemma entry_matches_compiles:
  "re_compiles w pat \<Longrightarrow>
     entry_matches w pat nis it e = Inr (record_matches w pat (\<not> nis) it e)"
  by (auto simp: entry_matches_def regex_search_def record_matches_def split: bool.splits)

lemma scan_entries_compiles:
  "re_compiles w pat \<Longrightarrow>
     scan_entries w pat nis it f es results =
       Inr (results @ map (make_match f) (filter (record_matches w pat (\<not> nis) it) es))"
  by (induction es arbitrary: results) (simp_all add: entry_matches_compiles)

lemma find_loop_compiles:
  "re_compiles w pat \<Longrightarrow>
     find_loop w pat nis it paths results errors =
       Inr (errors @ map not_a_po_file (unreadable w paths),
            results @ map (\<lambda>(f, e). make_match f e)
              (filter (\<lambda>(f, e). record_matches w pat (\<not> nis) it e) (records w paths)))"
proof (induction paths arbitrary: results errors)
  case Nil
  then show ?case by (simp add: unreadable_def records_def)
next
  case (Cons f paths)
  show ?case
  proof (cases "pofile w f")
    case None
    then show ?thesis
      using Cons by (simp add: unreadable_def records_def entries_of_def)
  next
    case (Some es)
    have "map (\<lambda>(f, e). make_match f e)
            (filter (\<lambda>(f, e). record_matches w pat (\<not> nis) it e) (map (Pair f) es))
          = map (make_match f) (filter (record_matches w pat (\<not> nis) it) es)"
      by (induction es) simp_all
    then show ?thesis
      using Cons Some
      by (simp add: unreadable_def records_def entries_of_def scan_entries_compiles)
  qed
qed

lemma find_in_po_compiles:
  "re_compiles w pat \<Longrightarrow>
     find_in_po w pat paths nis it =
       Inr (map not_a_po_file (unreadable w paths),
            map (\<lambda>(f, e). make_match f e)
              (filter (\<lambda>(f, e). record_matches w pat (\<not> nis) it e) (records w paths)))"
  by (simp add: find_in_po_def find_loop_compiles)

lemma make_match_inject: "make_match f e = make_match f' e' \<longleftrightarrow> f = f' \<and> e = e'"
  by (cases e, cases e') (auto simp: make_match_def)

text \<open>
  C1. When the pattern compiles, the search returns a list of matches, and a record of the
  input is among them if and only if its translated text is not empty and the pattern
  matches its original text (with searchOriginal on) or its translated text (with
  searchTranslation on). Every match returned comes from a record of the input; none has an
  empty translated text; with both toggles off the list is empty.
\<close>

theorem find_in_po_match_iff:
  assumes "re_compiles w pat"
  shows "\<exists>errors results.
           find_in_po w pat paths not_in_source in_translation = Inr (errors, results) \<and>
           (\<forall>f e. (f, e) \<in> set (records w paths) \<longrightarrow>
              (make_match f e \<in> set results \<longleftrightarrow>
                 record_matches w pat (\<not> not_in_source) in_translation e)) \<and>
           (\<forall>m \<in> set results. \<exists>f e. (f, e) \<in> set (records w paths) \<and> m = make_match f e) \<and>
           (\<forall>m \<in> set results. m_msgstr m \<noteq> []) \<and>
           (not_in_source \<and> \<not> in_translation \<longrightarrow> results = [])"
proof -
  let ?P = "\<lambda>(f, e). record_matches w pat (\<not> not_in_source) in_translation e"
  let ?results = "map (\<lambda>(f, e). make_match f e) (filter ?P (records w paths))"
  have run: "find_in_po w pat paths not_in_source in_translation
               = Inr (map not_a_po_file (unreadable w paths), ?results)"
    using assms by (rule find_in_po_compiles)
  have iff: "make_match f e \<in> set ?results
               \<longleftrightarrow> record_matches w pat (\<not> not_in_source) in_translation e"
    if "(f, e) \<in> set (records w paths)" for f e
    using that by (auto simp: make_match_inject)
  have from_input: "\<exists>f e. (f, e) \<in> set (records w paths) \<and> m = make_match f e"
    if "m \<in> set ?results" for m
    using that by auto
  have translated: "m_msgstr m \<noteq> []" if "m \<in> set ?results" for m
    using that by (auto simp: record_matches_def make_match_def)
  have off: "?results = []" if "not_in_source \<and> \<not> in_translation"
    using that by (simp add: record_matches_def)
  show ?thesis
    using run iff from_input translated off by blast
qed

text \<open>
  In the reference world every hypothesis holds for the pattern \<^verbatim>\<open>hello\<close> and the catalog
  \<^verbatim>\<open>a.po\<close> of the specification's scenario.
\<close>

theorem find_in_po_match_iff_witness:
  "re_compiles ref_world ''hello'' \<and>
   (\<exists>errors results.
      find_in_po ref_world ''hello'' [''a.po''] False False = Inr (errors, results) \<and>
      set results = {\<lparr>m_file = ''a.po'', m_line = 3, m_msgid = ''hello'', m_msgstr = ''bonjour''\<rparr>})"
proof -
  have c: "re_compiles ref_world ''hello''"
    by code_simp
  have r: "records ref_world [''a.po'']
             = [(''a.po'', \<lparr>linenum = 3, msgid = ''hello'', msgstr = ''bonjour''\<rparr>),
                (''a.po'', \<lparr>linenum = 7, msgid = ''world'', msgstr = []\<rparr>)]"
    by (simp add: records_def entries_of_def ref_world_def ref_pofile_def)
  have m1: "record_matches ref_world ''hello'' True False
              \<lparr>linenum = 3, msgid = ''hello'', msgstr = ''bonjour''\<rparr>"
    by code_simp
  have m2: "\<not> record_matches ref_world ''hello'' True False
              \<lparr>linenum = 7, msgid = ''world'', msgstr = []\<rparr>"
    by (simp add: record_matches_def)
  from find_in_po_match_iff [OF c, of "[''a.po'']" False False]
  obtain errors results where
    run: "find_in_po ref_world ''hello'' [''a.po''] False False = Inr (errors, results)"
    and iff: "\<forall>f e. (f, e) \<in> set (records ref_world [''a.po'']) \<longrightarrow>
               (make_match f e \<in> set results \<longleftrightarrow> record_matches ref_world ''hello'' (\<not> False) False e)"
    and inp: "\<forall>m \<in> set results. \<exists>f e. (f, e) \<in> set (records ref_world [''a.po'']) \<and> m = make_match f e"
    by blast
  have "set results = {make_match ''a.po'' \<lparr>linenum = 3, msgid = ''hello'', msgstr = ''bonjour''\<rparr>}"
    using iff inp m1 m2 unfolding r by auto
  then show ?thesis
    using c run by (auto simp: make_match_def)
qed

text \<open>
  C5. When the pattern compiles, the list of matches is the sequence of input records
  (files in the order listed, each file's entries in catalog order) with the records that do
  not match left out: \<open>filter\<close> keeps the order and keeps repetitions, so nothing is sorted
  and nothing is deduplicated. In particular the matches are a subsequence of the input.
\<close>

theorem find_in_po_preserves_order:
  assumes "re_compiles w pat"
  shows "\<exists>errors results.
           find_in_po w pat paths not_in_source in_translation = Inr (errors, results) \<and>
           results = map (\<lambda>(f, e). make_match f e)
                       (filter (\<lambda>(f, e). record_matches w pat (\<not> not_in_source) in_translation e)
                          (records w paths)) \<and>
           subseq results (map (\<lambda>(f, e). make_match f e) (records w paths))"
proof -
  let ?P = "\<lambda>(f, e). record_matches w pat (\<not> not_in_source) in_translation e"
  have "subseq (filter ?P (records w paths)) (records w paths)"
    by simp
  then have "subseq (map (\<lambda>(f, e). make_match f e) (filter ?P (records w paths)))
               (map (\<lambda>(f, e). make_match f e) (records w paths))"
    by (rule subseq_map)
  then show ?thesis
    using find_in_po_compiles [OF assms, of paths not_in_source in_translation] by simp
qed

text \<open>
  Listing \<^verbatim>\<open>b.po\<close> before and after \<^verbatim>\<open>a.po\<close> gives its two matches twice, around the match of
  \<^verbatim>\<open>a.po\<close>, lines 5, 12, 3, 5, 12: neither sorted nor deduplicated.
\<close>

theorem find_in_po_preserves_order_witness:
  "re_compiles ref_world ''hello'' \<and>
   (\<exists>errors results.
      find_in_po ref_world ''hello'' [''b.po'', ''a.po'', ''b.po''] False False = Inr (errors, results) \<and>
      map (\<lambda>m. (m_file m, m_line m)) results
        = [(''b.po'', 5), (''b.po'', 12), (''a.po'', 3), (''b.po'', 5), (''b.po'', 12)])"
proof -
  have c: "re_compiles ref_world ''hello''"
    by code_simp
  have r: "map (\<lambda>m. (m_file m, m_line m))
             (map (\<lambda>(f, e). make_match f e)
               (filter (\<lambda>(f, e). record_matches ref_world ''hello'' (\<not> False) False e)
                 (records ref_world [''b.po'', ''a.po'', ''b.po''])))
           = [(''b.po'', 5), (''b.po'', 12), (''a.po'', 3), (''b.po'', 5), (''b.po'', 12)]"
    by code_simp
  show ?thesis
    using c r find_in_po_preserves_order [OF c, of "[''b.po'', ''a.po'', ''b.po'']" False False]
    by auto
qed

subsection \<open>The scenarios of the specification\<close>

text \<open>
  The catalog \<^verbatim>\<open>a.po\<close> holds \<^verbatim>\<open>("hello", "bonjour")\<close> at line 3 and \<^verbatim>\<open>("world", "")\<close> at line 7.
  Searching \<^verbatim>\<open>hello\<close> with no flag gives the entry of line 3 alone; so does searching
  \<^verbatim>\<open>bonjour\<close> with \<^verbatim>\<open>--no-source --translation\<close>, this time through the translated text.
\<close>

theorem scenario_a_po:
  "find_in_po ref_world ''hello'' [''a.po''] False False
     = Inr ([], [\<lparr>m_file = ''a.po'', m_line = 3, m_msgid = ''hello'', m_msgstr = ''bonjour''\<rparr>]) \<and>
   find_in_po ref_world ''bonjour'' [''a.po''] True True
     = Inr ([], [\<lparr>m_file = ''a.po'', m_line = 3, m_msgid = ''hello'', m_msgstr = ''bonjour''\<rparr>]) \<and>
   find_in_po ref_world ''bonjour'' [''a.po''] False False = Inr ([], [])"
  by code_simp

subsection \<open>Files that are not catalogs\<close>

lemma path_loop_silent: "path_loop w rec paths files = (out, Inr fs) \<Longrightarrow> out = []"
  by (induction paths arbitrary: files) (auto split: if_splits)

lemma process_path_silent: "process_path w paths rec = (out, Inr fs) \<Longrightarrow> out = []"
  by (auto simp: process_path_def split: if_splits dest: path_loop_silent)




section \<open>The pattern\<close>

text \<open>
  C2. For every raw pattern and every combination of the three flags, the pattern that
  \<^verbatim>\<open>main\<close> hands to the search is obtained by escaping first (\<^verbatim>\<open>regex.escape\<close>, under \<^verbatim>\<open>-F\<close>),
  then wrapping the result in \<^verbatim>\<open>\b\<close> ... \<^verbatim>\<open>\b\<close> (under \<^verbatim>\<open>-w\<close>), then putting \<^verbatim>\<open>(?i)\<close> in
  front (under \<^verbatim>\<open>-i\<close>).
\<close>

theorem build_pattern_steps:
  "build_pattern w a =
     prepend_case_modifier (ignore_case a)
       (wrap_word (word_regexp a)
          (escape_literal w (fixed_strings a) (pattern a)))"
  by (simp add: build_pattern_def prepend_case_modifier_def wrap_word_def escape_literal_def)

text \<open>With all three flags, on the raw pattern \<^verbatim>\<open>a.b\<close>: \<^verbatim>\<open>(?i)\ba\.b\b\<close>.\<close>

lemma build_pattern_all_flags:
  "build_pattern ref_world
     \<lparr>fixed_strings = True, ignore_case = True, word_regexp = True, line_number = False,
      files_with_matches = False, no_messages = False, recursive = False, translation = False,
      no_source = False, exclude_dir = None, pattern = ''a.b'', path = []\<rparr>
   = ''(?i)'' @ [backslash] @ ''ba'' @ [backslash] @ ''.b'' @ [backslash] @ ''b''"
  by code_simp

section \<open>Path resolution\<close>

lemma path_loop_accepts:
  "\<forall>p \<in> set pre. path_ok w rec p \<Longrightarrow>
     \<exists>files'. path_loop w rec (pre @ rest) files = path_loop w rec rest files'"
  by (induction pre arbitrary: files) (auto simp: path_ok_def)

lemma path_loop_offender:
  "\<not> path_ok w rec elt \<Longrightarrow>
     path_loop w rec (elt # rest) files =
       ([Stderr (if isdir w elt then is_a_directory w elt else no_such_file w elt)],
        Inl (SystemExit 1))"
  by (auto simp: path_ok_def)

text \<open>
  C7, as amended. With no path and no \<^verbatim>\<open>-r\<close> the program exits at once with status 0 and
  prints nothing. Otherwise, the first listed path that is a directory while \<^verbatim>\<open>-r\<close> is
  unset, or that is neither a file nor a directory, makes the program print one line to
  standard error that names this path, and exit with status 1; that line is all it prints,
  and the paths listed after it play no part.
\<close>

theorem process_path_exits:
  "(path a = [] \<and> \<not> recursive a \<longrightarrow> main w a = ([], Inl (SystemExit 0))) \<and>
   ((\<forall>p \<in> set pre. path_ok w (recursive a) p) \<and> \<not> path_ok w (recursive a) elt \<and>
      path a = pre @ elt # rest \<longrightarrow>
    process_path w (path a) (recursive a) =
      ([Stderr (argv0 w @ '': '' @ elt @
                 (if isdir w elt then '': Is a directory'' else '': No such file or directory''))],
       Inl (SystemExit 1)) \<and>
    main w a =
      ([Stderr (argv0 w @ '': '' @ elt @
                 (if isdir w elt then '': Is a directory'' else '': No such file or directory''))],
       Inl (SystemExit 1)))"
proof (intro conjI impI)
  assume "path a = [] \<and> \<not> recursive a"
  then show "main w a = ([], Inl (SystemExit 0))"
    by (simp add: main_def process_path_def)
next
  assume h: "(\<forall>p \<in> set pre. path_ok w (recursive a) p) \<and> \<not> path_ok w (recursive a) elt \<and>
      path a = pre @ elt # rest"
  let ?msg = "argv0 w @ '': '' @ elt @
                 (if isdir w elt then '': Is a directory'' else '': No such file or directory'')"
  from h obtain files' where
    "path_loop w (recursive a) (pre @ elt # rest) [] = path_loop w (recursive a) (elt # rest) files'"
    using path_loop_accepts [of pre w "recursive a" "elt # rest" "[]"] by blast
  then have "path_loop w (recursive a) (pre @ elt # rest) [] = ([Stderr ?msg], Inl (SystemExit 1))"
    using h path_loop_offender [of w "recursive a" elt rest files']
    by (simp add: is_a_directory_def no_such_file_def)
  then show pp: "process_path w (path a) (recursive a) = ([Stderr ?msg], Inl (SystemExit 1))"
    using h by (simp add: process_path_def)
  then show "main w a = ([Stderr ?msg], Inl (SystemExit 1))"
    by (simp add: main_def)
qed

text \<open>
  In the reference world: no path at all; and \<^verbatim>\<open>a.po\<close> followed by the directory \<^verbatim>\<open>d\<close>.
\<close>

theorem process_path_exits_witness:
  "main ref_world
     \<lparr>fixed_strings = False, ignore_case = False, word_regexp = False, line_number = False,
      files_with_matches = False, no_messages = False, recursive = False, translation = False,
      no_source = False, exclude_dir = None, pattern = ''hello'', path = []\<rparr>
     = ([], Inl (SystemExit 0)) \<and>
   main ref_world
     \<lparr>fixed_strings = False, ignore_case = False, word_regexp = False, line_number = False,
      files_with_matches = False, no_messages = False, recursive = False, translation = False,
      no_source = False, exclude_dir = None, pattern = ''hello'', path = [''a.po'', ''d'', ''b.po'']\<rparr>
     = ([Stderr ''pogrep: d: Is a directory''], Inl (SystemExit 1))"
proof -
  let ?a0 = "\<lparr>fixed_strings = False, ignore_case = False, word_regexp = False, line_number = False,
      files_with_matches = False, no_messages = False, recursive = False, translation = False,
      no_source = False, exclude_dir = None, pattern = ''hello'', path = []\<rparr>"
  let ?a1 = "\<lparr>fixed_strings = False, ignore_case = False, word_regexp = False, line_number = False,
      files_with_matches = False, no_messages = False, recursive = False, translation = False,
      no_source = False, exclude_dir = None, pattern = ''hello'', path = [''a.po'', ''d'', ''b.po'']\<rparr>"
  have first: "main ref_world ?a0 = ([], Inl (SystemExit 0))"
    using process_path_exits [of ?a0 ref_world] by simp
  have ok: "\<forall>p \<in> set [''a.po'']. path_ok ref_world (recursive ?a1) p"
    by (simp add: path_ok_def ref_world_def)
  have bad: "\<not> path_ok ref_world (recursive ?a1) ''d''"
    by (simp add: path_ok_def ref_world_def)
  have split: "path ?a1 = [''a.po''] @ ''d'' # [''b.po'']"
    by simp
  have dir: "isdir ref_world ''d''" "argv0 ref_world = ''pogrep''"
    by (simp_all add: ref_world_def)
  have second: "main ref_world ?a1 = ([Stderr ''pogrep: d: Is a directory''], Inl (SystemExit 1))"
    using process_path_exits [of ?a1 ref_world "[''a.po'']" "''d''" "[''b.po'']"] ok bad split dir
    by simp
  show ?thesis
    using first second by simp
qed

text \<open>
  C7 as stated fails where two offenders are listed: \<^verbatim>\<open>missing\<close> is a listed path
  that does not exist, yet the only line printed names \<^verbatim>\<open>d\<close>.
\<close>

theorem process_path_names_first_only:
  "''missing'' \<in> set [''d'', ''missing''] \<and>
   \<not> isfile ref_world ''missing'' \<and> \<not> isdir ref_world ''missing'' \<and>
   process_path ref_world [''d'', ''missing''] False
     = ([Stderr ''pogrep: d: Is a directory''], Inl (SystemExit 1))"
  by (simp add: process_path_def ref_world_def is_a_directory_def)

section \<open>Output\<close>

subsection \<open>File names only\<close>

text \<open>
  C6. Let Python's iteration over the set of file names visit each of its elements once.
  Then with \<^verbatim>\<open>-l\<close> set, \<^verbatim>\<open>display_results\<close> prints, for every list of matches, whatever the
  pattern and whatever \<^verbatim>\<open>-n\<close>, one line per distinct file of the matches, made of the file
  name between the file colour and the reset code, and nothing else.
\<close>

theorem files_with_matches_output:
  assumes "set (set_iter w (file_set matches)) = set (file_set matches)"
    and "distinct (set_iter w (file_set matches))"
  shows "\<exists>names.
           display_results w matches pat line_nr True
             = (map (\<lambda>f. Stdout (MAGENTA w @ f @ NO_COLOR w)) names, Inr ()) \<and>
           set names = m_file ` set matches \<and> distinct names \<and>
           length names = card (m_file ` set matches)"
proof -
  let ?names = "set_iter w (file_set matches)"
  have run: "display_results w matches pat line_nr True
               = (map (\<lambda>f. Stdout (MAGENTA w @ f @ NO_COLOR w)) ?names, Inr ())"
    by (simp add: display_results_def)
  have s: "set ?names = m_file ` set matches"
    using assms(1) by (simp add: file_set_def)
  have "length ?names = card (set ?names)"
    using assms(2) by (simp add: distinct_card)
  then have "length ?names = card (m_file ` set matches)"
    using s by simp
  then show ?thesis
    using run s assms(2) by blast
qed

text \<open>Three matches from two files, with \<^verbatim>\<open>-n\<close> set as well: two lines.\<close>

theorem files_with_matches_output_witness:
  "set (set_iter ref_world (file_set
      [\<lparr>m_file = ''a.po'', m_line = 3, m_msgid = ''hello'', m_msgstr = ''bonjour''\<rparr>,
       \<lparr>m_file = ''b.po'', m_line = 5, m_msgid = ''hello world'', m_msgstr = ''bonjour le monde''\<rparr>,
       \<lparr>m_file = ''b.po'', m_line = 12, m_msgid = ''hello'', m_msgstr = ''bonjour''\<rparr>]))
     = {''a.po'', ''b.po''} \<and>
   display_results ref_world
      [\<lparr>m_file = ''a.po'', m_line = 3, m_msgid = ''hello'', m_msgstr = ''bonjour''\<rparr>,
       \<lparr>m_file = ''b.po'', m_line = 5, m_msgid = ''hello world'', m_msgstr = ''bonjour le monde''\<rparr>,
       \<lparr>m_file = ''b.po'', m_line = 12, m_msgid = ''hello'', m_msgstr = ''bonjour''\<rparr>]
      ''hello'' True True
     = ([Stdout (MAGENTA ref_world @ ''a.po'' @ NO_COLOR ref_world),
         Stdout (MAGENTA ref_world @ ''b.po'' @ NO_COLOR ref_world)], Inr ())"
proof -
  let ?ms = "[\<lparr>m_file = ''a.po'', m_line = 3, m_msgid = ''hello'', m_msgstr = ''bonjour''\<rparr>,
       \<lparr>m_file = ''b.po'', m_line = 5, m_msgid = ''hello world'', m_msgstr = ''bonjour le monde''\<rparr>,
       \<lparr>m_file = ''b.po'', m_line = 12, m_msgid = ''hello'', m_msgstr = ''bonjour''\<rparr>]"
  have it: "set_iter ref_world (file_set ?ms) = [''a.po'', ''b.po'']"
    by (simp add: ref_world_def file_set_def)
  have h1: "set (set_iter ref_world (file_set ?ms)) = set (file_set ?ms)"
    by (simp add: ref_world_def)
  have h2: "distinct (set_iter ref_world (file_set ?ms))"
    unfolding it by simp
  from files_with_matches_output [OF h1 h2, of "''hello''" True]
  obtain names where
    run: "display_results ref_world ?ms ''hello'' True True
            = (map (\<lambda>f. Stdout (MAGENTA ref_world @ f @ NO_COLOR ref_world)) names, Inr ())"
    by blast
  have "display_results ref_world ?ms ''hello'' True True
          = (map (\<lambda>f. Stdout (MAGENTA ref_world @ f @ NO_COLOR ref_world))
               (set_iter ref_world (file_set ?ms)), Inr ())"
    by (simp add: display_results_def)
  then show ?thesis
    using run unfolding it by simp
qed

subsection \<open>The table\<close>

lemma table_loop_rows:
  assumes "0 < width"
  shows "table_loop w line_nr nfiles width ms table pfxs =
           Inr (table @ map (\<lambda>m. [fill w ((if line_nr
                                              then (if nfiles > 1 then m_file m @ '':'' else [])
                                                     @ str_int (m_line m) @ '':''
                                              else []) @ m_msgid m) width,
                                    fill w (m_msgstr m) width]) ms,
                pfxs @ (if line_nr
                        then map (\<lambda>m. (str_int (m_line m) @ '':'',
                                        (if nfiles > 1 then m_file m @ '':'' else []))) ms
                        else []))"
  using assms
  by (induction ms arbitrary: table pfxs) (simp_all add: py_fill_def Let_def)

text \<open>
  The layout of the table, for a terminal at least nine columns wide. Each match gives one
  row of two cells, both wrapped to half of the width less seven: the original text,
  preceded under \<^verbatim>\<open>-n\<close> by the line number and a colon, and before that by the file name and
  a colon when the matches come from more than one file; and the translated text as it is.
  The whole table is then coloured in one call, with one prefix pair per row under \<^verbatim>\<open>-n\<close>
  and none otherwise, and printed as one piece.
\<close>

theorem display_results_table:
  assumes "9 \<le> terminal_width w"
  shows "display_results w matches pat line_nr False =
           (case colorize w
                   (tabulate w
                      (map (\<lambda>m. [fill w ((if line_nr
                                             then (if length (file_set matches) > 1
                                                   then m_file m @ '':'' else [])
                                                    @ str_int (m_line m) @ '':''
                                             else []) @ m_msgid m)
                                     ((terminal_width w - 7) div 2),
                                   fill w (m_msgstr m) ((terminal_width w - 7) div 2)])
                         matches))
                   pat
                   (if line_nr
                    then map (\<lambda>m. (str_int (m_line m) @ '':'',
                                    (if length (file_set matches) > 1
                                     then m_file m @ '':'' else []))) matches
                    else []) of
              Inl err \<Rightarrow> ([], Inl err)
            | Inr out \<Rightarrow> ([Stdout out], Inr ()))"
proof -
  have "0 < (terminal_width w - 7) div 2"
    using assms by simp
  from table_loop_rows [OF this, of w line_nr "length (file_set matches)" matches "[]" "[]"]
  show ?thesis
    by (simp add: display_results_def)
qed

text \<open>
  In the reference world, the one match of \<^verbatim>\<open>hello\<close> in \<^verbatim>\<open>a.po\<close> shown with \<^verbatim>\<open>-n\<close>: the
  line number is coloured as a prefix, the match in red, and no file name is shown.
\<close>

theorem display_results_table_witness:
  "9 \<le> terminal_width ref_world \<and>
   display_results ref_world
     [\<lparr>m_file = ''a.po'', m_line = 3, m_msgid = ''hello'', m_msgstr = ''bonjour''\<rparr>]
     ''hello'' True False
     = ([Stdout (''| '' @ MAGENTA ref_world @ GREEN ref_world @ ''3:'' @ NO_COLOR ref_world
                   @ RED ref_world @ ''hello'' @ NO_COLOR ref_world @ '' | bonjour |''
                   @ [CHR 0x0A])], Inr ())"
proof -
  let ?ms = "[\<lparr>m_file = ''a.po'', m_line = 3, m_msgid = ''hello'', m_msgstr = ''bonjour''\<rparr>]"
  have w: "9 \<le> terminal_width ref_world"
    by (simp add: ref_world_def)
  have c: "colorize ref_world
             (tabulate ref_world
                (map (\<lambda>m. [fill ref_world ((if True
                                             then (if length (file_set ?ms) > 1
                                                   then m_file m @ '':'' else [])
                                                    @ str_int (m_line m) @ '':''
                                             else []) @ m_msgid m)
                               ((terminal_width ref_world - 7) div 2),
                             fill ref_world (m_msgstr m) ((terminal_width ref_world - 7) div 2)])
                   ?ms))
             ''hello''
             (if True
              then map (\<lambda>m. (str_int (m_line m) @ '':'',
                              (if length (file_set ?ms) > 1 then m_file m @ '':'' else []))) ?ms
              else [])
           = Inr (''| '' @ MAGENTA ref_world @ GREEN ref_world @ ''3:'' @ NO_COLOR ref_world
                    @ RED ref_world @ ''hello'' @ NO_COLOR ref_world @ '' | bonjour |''
                    @ [CHR 0x0A])"
    by code_simp
  show ?thesis
    using w display_results_table [OF w, of ?ms "''hello''" True] unfolding c by simp
qed

section \<open>A pattern that does not compile\<close>

lemma entry_matches_malformed:
  "\<not> re_compiles w pat \<Longrightarrow>
     entry_matches w pat nis it e = (if attempted nis it e then Inl RegexError else Inr False)"
  by (auto simp: entry_matches_def regex_search_def attempted_def)

lemma scan_entries_malformed:
  "\<not> re_compiles w pat \<Longrightarrow>
     scan_entries w pat nis it f es results =
       (if list_ex (attempted nis it) es then Inl RegexError else Inr results)"
  by (induction es arbitrary: results) (simp_all add: entry_matches_malformed)

lemma find_loop_malformed:
  "\<not> re_compiles w pat \<Longrightarrow>
     find_loop w pat nis it files results errors =
       (if searched w files nis it then Inl RegexError
        else Inr (errors @ map not_a_po_file (unreadable w files), results))"
proof (induction files arbitrary: results errors)
  case Nil
  then show ?case by (simp add: searched_def records_def unreadable_def)
next
  case (Cons f files)
  have ex: "list_ex (\<lambda>(f, e). attempted nis it e) (map (Pair f) es) = list_ex (attempted nis it) es"
    for es
    by (induction es) simp_all
  show ?case
  proof (cases "pofile w f")
    case None
    then show ?thesis
      using Cons by (simp add: searched_def records_def unreadable_def entries_of_def)
  next
    case (Some es)
    then show ?thesis
      using Cons ex [of es]
      by (simp add: searched_def records_def unreadable_def entries_of_def scan_entries_malformed)
  qed
qed

lemma display_nothing_malformed:
  "\<not> re_compiles w pat \<Longrightarrow> set_iter w [] = [] \<Longrightarrow>
     display_results w [] pat line_nr only_files =
       (if only_files then ([], Inr ()) else ([], Inl RegexError))"
  by (simp add: display_results_def file_set_def colorize_def regex_sub_def)

text \<open>
  C9, as amended. Let the pattern built from the arguments not compile (and let iterating
  over an empty set yield nothing). The program never compiles the pattern ahead of the
  scan, so:
  \<^item> if path resolution exits, the program ends with that exit status and the malformed
    pattern goes unnoticed;
  \<^item> otherwise, if the scan reaches an entry it has to search, the program fails there with
    \<^verbatim>\<open>regex.error\<close>, having printed nothing;
  \<^item> otherwise the scan ends, the warnings are printed (unless \<^verbatim>\<open>-s\<close>), and then the program
    fails with \<^verbatim>\<open>regex.error\<close> when it renders the (empty) table, or, under \<^verbatim>\<open>-l\<close>, ends
    normally.

  In no case does it print a result, and the pattern is never altered.
\<close>

theorem malformed_pattern_outcome:
  assumes "\<not> re_compiles w (build_pattern w a)"
    and "set_iter w [] = []"
  shows "main w a =
           (case process_path w (path a) (recursive a) of
              (out1, Inl err) \<Rightarrow> (out1, Inl err)
            | (out1, Inr files0) \<Rightarrow>
                (if searched w (exclude w (exclude_dir a) files0) (no_source a) (translation a)
                 then ([], Inl RegexError)
                 else ((if no_messages a then []
                        else map Stderr
                               (map not_a_po_file (unreadable w (exclude w (exclude_dir a) files0)))),
                       (if files_with_matches a then Inr () else Inl RegexError))))"
proof (cases "process_path w (path a) (recursive a)")
  case (Pair out1 r)
  show ?thesis
  proof (cases r)
    case (Inl err)
    then show ?thesis
      using Pair by (simp add: main_def)
  next
    case (Inr files0)
    have silent: "out1 = []"
      using Pair Inr process_path_silent by blast
    let ?files = "exclude w (exclude_dir a) files0"
    have scan: "find_in_po w (build_pattern w a) ?files (no_source a) (translation a) =
        (if searched w ?files (no_source a) (translation a) then Inl RegexError
         else Inr (map not_a_po_file (unreadable w ?files), []))"
      using find_loop_malformed [OF assms(1), of "no_source a" "translation a" ?files "[]" "[]"]
      by (simp add: find_in_po_def)
    show ?thesis
      using Pair Inr silent scan display_nothing_malformed [OF assms]
      by (simp add: main_def Let_def)
  qed
qed

text \<open>
  In the reference world the pattern \<^verbatim>\<open>(\<close> does not compile; on \<^verbatim>\<open>a.po\<close> the program fails
  with \<^verbatim>\<open>regex.error\<close> at the first entry.
\<close>

theorem malformed_pattern_outcome_witness:
  "\<not> re_compiles ref_world ''('' \<and> set_iter ref_world [] = [] \<and>
   main ref_world
     \<lparr>fixed_strings = False, ignore_case = False, word_regexp = False, line_number = False,
      files_with_matches = False, no_messages = False, recursive = False, translation = False,
      no_source = False, exclude_dir = None, pattern = ''('', path = [''a.po'']\<rparr>
     = ([], Inl RegexError)"
proof -
  let ?a = "\<lparr>fixed_strings = False, ignore_case = False, word_regexp = False, line_number = False,
      files_with_matches = False, no_messages = False, recursive = False, translation = False,
      no_source = False, exclude_dir = None, pattern = ''('', path = [''a.po'']\<rparr>"
  have p: "build_pattern ref_world ?a = ''(''"
    by (simp add: build_pattern_def)
  have c: "\<not> re_compiles ref_world (build_pattern ref_world ?a)"
    unfolding p by code_simp
  have s: "set_iter ref_world [] = []"
    by (simp add: ref_world_def)
  have pp: "process_path ref_world (path ?a) (recursive ?a) = ([], Inr [''a.po''])"
    by (simp add: process_path_def ref_world_def)
  have se: "searched ref_world (exclude ref_world (exclude_dir ?a) [''a.po'']) (no_source ?a) (translation ?a)"
    by code_simp
  have "main ref_world ?a = ([], Inl RegexError)"
    using malformed_pattern_outcome [OF c s] se unfolding pp by simp
  then show ?thesis
    using c s unfolding p by simp
qed

text \<open>
  C9 as stated fails: with no path and no \<^verbatim>\<open>-r\<close> the program exits with status 0,
  and with \<^verbatim>\<open>-l\<close> on a file that is not a catalog it ends normally after the warning; in
  neither run is the malformed pattern \<^verbatim>\<open>(\<close> reported.
\<close>

theorem malformed_pattern_unnoticed:
  "\<not> re_compiles ref_world ''('' \<and>
   main ref_world
     \<lparr>fixed_strings = False, ignore_case = False, word_regexp = False, line_number = False,
      files_with_matches = False, no_messages = False, recursive = False, translation = False,
      no_source = False, exclude_dir = None, pattern = ''('', path = []\<rparr>
     = ([], Inl (SystemExit 0)) \<and>
   main ref_world
     \<lparr>fixed_strings = False, ignore_case = False, word_regexp = False, line_number = False,
      files_with_matches = True, no_messages = False, recursive = False, translation = False,
      no_source = False, exclude_dir = None, pattern = ''('', path = [''bad.po'']\<rparr>
     = ([Stderr (not_a_po_file ''bad.po'')], Inr ())"
  by code_simp

section \<open>Whole words\<close>

text \<open>
  C10 does not hold of the program. \<^verbatim>\<open>main\<close> puts \<^verbatim>\<open>\b\<close> before and after the raw pattern
  without grouping it, so in \<^verbatim>\<open>\bcat|dog\b\<close> each anchor belongs to one alternative only:
  the pattern matches \<^verbatim>\<open>cat\<close> at the start of \<^verbatim>\<open>category\<close>, and \<^verbatim>\<open>pogrep -w 'cat|dog'\<close>
  reports the entry of \<^verbatim>\<open>d/c.po\<close>. With the raw pattern \<^verbatim>\<open>cat\<close> it does not.
\<close>

theorem whole_word_alternation:
  "build_pattern ref_world
     \<lparr>fixed_strings = False, ignore_case = False, word_regexp = True, line_number = False,
      files_with_matches = False, no_messages = False, recursive = False, translation = False,
      no_source = False, exclude_dir = None, pattern = ''cat|dog'', path = [''d/c.po'']\<rparr>
     = [backslash] @ ''bcat|dog'' @ [backslash] @ ''b'' \<and>
   regex_search ref_world ([backslash] @ ''bcat|dog'' @ [backslash] @ ''b'') ''category'' = Inr True \<and>
   find_in_po ref_world ([backslash] @ ''bcat|dog'' @ [backslash] @ ''b'') [''d/c.po''] False False
     = Inr ([], [\<lparr>m_file = ''d/c.po'', m_line = 1, m_msgid = ''category'', m_msgstr = ''categorie''\<rparr>]) \<and>
   regex_search ref_world ([backslash] @ ''bcat'' @ [backslash] @ ''b'') ''category'' = Inr False"
  by code_simp

section \<open>Highlighting\<close>

subsection \<open>The round trip\<close>

text \<open>
  C3 does not hold of the program. When the pattern does not match inside a prefix,
  \<^verbatim>\<open>colorize\<close> hands the prefix to \<^verbatim>\<open>regex.sub\<close> unescaped, as a pattern, and the dot of a
  file name such as \<^verbatim>\<open>x.po\<close> matches any character. Here the text holds \<^verbatim>\<open> xypo:3:\<close> before
  the prefix \<^verbatim>\<open> x.po:3:\<close>; the pass overwrites the former, and stripping the colour codes from
  the result gives \<^verbatim>\<open> x.po:3: x.po:3:\<close>, not the input.

  The same happens on the way from \<^verbatim>\<open>display_results\<close>: for two matches of the pattern \<^verbatim>\<open>t\<close>
  found in the translations, shown with \<^verbatim>\<open>-n\<close>, the table reads \<^verbatim>\<open>see xypo:3: ok\<close> in its first
  row, the output reads \<^verbatim>\<open>see x.po:3: ok\<close>, and the prefix of the second row stays uncoloured.
\<close>

theorem colorize_alters_text:
  "colorize ref_world '' xypo:3: x.po:3:'' ''q'' [(''3:'', ''x.po:'')]
     = Inr ('' '' @ MAGENTA ref_world @ ''x.po:'' @ GREEN ref_world @ ''3:'' @ NO_COLOR ref_world
              @ '' x.po:3:'') \<and>
   strip_codes (color_codes ref_world)
     ('' '' @ MAGENTA ref_world @ ''x.po:'' @ GREEN ref_world @ ''3:'' @ NO_COLOR ref_world
        @ '' x.po:3:'')
     = '' x.po:3: x.po:3:'' \<and>
   tabulate ref_world [[''a.po:1:see xypo:3: ok'', ''t''], [''x.po:3:hello'', ''t2'']]
     = ''| a.po:1:see xypo:3: ok | t |'' @ [CHR 0x0A] @ ''| x.po:3:hello | t2 |'' @ [CHR 0x0A] \<and>
   display_results ref_world
     [\<lparr>m_file = ''a.po'', m_line = 1, m_msgid = ''see xypo:3: ok'', m_msgstr = ''t''\<rparr>,
      \<lparr>m_file = ''x.po'', m_line = 3, m_msgid = ''hello'', m_msgstr = ''t2''\<rparr>] ''t'' True False
     = ([Stdout
          (''| '' @ MAGENTA ref_world @ ''a.po:'' @ GREEN ref_world @ ''1:'' @ NO_COLOR ref_world
             @ ''see '' @ MAGENTA ref_world @ ''x.po:'' @ GREEN ref_world @ ''3:'' @ NO_COLOR ref_world
             @ '' ok | '' @ RED ref_world @ ''t'' @ NO_COLOR ref_world @ '' |'' @ [CHR 0x0A]
             @ ''| x.po:3:hello | '' @ RED ref_world @ ''t'' @ NO_COLOR ref_world @ ''2 |''
             @ [CHR 0x0A])],
        Inr ()) \<and>
   strip_codes (color_codes ref_world)
     (''| '' @ MAGENTA ref_world @ ''a.po:'' @ GREEN ref_world @ ''1:'' @ NO_COLOR ref_world
        @ ''see '' @ MAGENTA ref_world @ ''x.po:'' @ GREEN ref_world @ ''3:'' @ NO_COLOR ref_world
        @ '' ok | '' @ RED ref_world @ ''t'' @ NO_COLOR ref_world @ '' |'' @ [CHR 0x0A]
        @ ''| x.po:3:hello | '' @ RED ref_world @ ''t'' @ NO_COLOR ref_world @ ''2 |''
        @ [CHR 0x0A])
     = ''| a.po:1:see x.po:3: ok | t |'' @ [CHR 0x0A] @ ''| x.po:3:hello | t2 |'' @ [CHR 0x0A]"
  by code_simp

subsection \<open>The prefix pass\<close>
















end
